theory Spec2Isabelle
  imports Complex_Main "HOL-Library.AList" "HOL-Library.Finite_Map"
begin

section \<open>The invite plugin: data model\<close>

text \<open>
  A shallow embedding of \<^verbatim>\<open>ModmailInvitePlugin\<close> (\<^verbatim>\<open>src/invites/invites.py\<close>).
  Timestamps (\<^verbatim>\<open>time.time()\<close>, \<^verbatim>\<open>datetime.utcnow()\<close>) are seconds as \<^typ>\<open>real\<close>;
  every function that reads the clock takes the value read as an argument. Logging is
  left out: it changes no state and no result.
\<close>

type_synonym guild_id = int
type_synonym thread_id = int
type_synonym timestamp = real

text \<open>
  The Python values a configuration field can hold. \<open>PDict\<close> is a dict with string
  keys, in the order of its items: the sub-document the store keeps under a field.
\<close>

datatype pyval =
  PNone | PBool bool | PInt int | PFloat real | PStr string | PDict "(string \<times> pyval) list"

text \<open>\<^verbatim>\<open>isinstance(v, int)\<close>: \<^verbatim>\<open>bool\<close> is a subclass of \<^verbatim>\<open>int\<close>.\<close>

fun isinstance_int :: "pyval \<Rightarrow> bool" where
  "isinstance_int (PInt i) = True"
| "isinstance_int (PBool b) = True"
| "isinstance_int v = False"

fun isinstance_bool :: "pyval \<Rightarrow> bool" where
  "isinstance_bool (PBool b) = True"
| "isinstance_bool v = False"

text \<open>The integer a value of class \<^verbatim>\<open>int\<close> compares as (\<^verbatim>\<open>True\<close> is 1).\<close>

fun int_of :: "pyval \<Rightarrow> int" where
  "int_of (PInt i) = i"
| "int_of (PBool b) = (if b then 1 else 0)"
| "int_of v = 0"

text \<open>The number a value is in arithmetic, if it is one.\<close>

fun py_num :: "pyval \<Rightarrow> real option" where
  "py_num (PInt i) = Some (real_of_int i)"
| "py_num (PBool b) = Some (if b then 1 else 0)"
| "py_num (PFloat r) = Some r"
| "py_num v = None"

text \<open>Truth value of a Python value in a condition.\<close>

fun truthy :: "pyval \<Rightarrow> bool" where
  "truthy PNone = False"
| "truthy (PBool b) = b"
| "truthy (PInt i) = (i \<noteq> 0)"
| "truthy (PFloat r) = (r \<noteq> 0)"
| "truthy (PStr s) = (s \<noteq> [])"
| "truthy (PDict d) = (d \<noteq> [])"

datatype py_error =
  ValueError string | KeyError | TypeError | ProviderError
  | OverflowError | InvalidDocument | WriteError

type_synonym config = "(string, pyval) fmap"

text \<open>\<^verbatim>\<open>config.get(key, default)\<close>.\<close>

definition dict_get :: "config \<Rightarrow> string \<Rightarrow> pyval \<Rightarrow> pyval" where
  "dict_get cfg key dflt = (case fmlookup cfg key of None \<Rightarrow> dflt | Some v \<Rightarrow> v)"

record cached_invite =
  url :: string
  expires_at :: timestamp

record thread_record =
  invite_url :: string
  created_at :: timestamp
  tr_guild_id :: guild_id
  tr_thread_id :: thread_id

text \<open>
  The plugin's state. \<open>config_docs\<close> and \<open>thread_docs\<close> are the documents
  \<^verbatim>\<open>config_<guild>\<close> and \<^verbatim>\<open>thread_<thread>\<close> of the persistence partition; a
  configuration document is its \<^verbatim>\<open>settings\<close> sub-document, the items of a dict.
  \<open>invite_cache\<close> is the dict of the same name, and \<open>rate_limits\<close> the
  \<^verbatim>\<open>defaultdict(float)\<close>: reading a missing key stores 0.0.
\<close>

record plugin_state =
  config_docs :: "guild_id \<rightharpoonup> (string \<times> pyval) list"
  thread_docs :: "thread_id \<rightharpoonup> thread_record"
  invite_cache :: "guild_id \<rightharpoonup> cached_invite"
  rate_limits :: "guild_id \<rightharpoonup> timestamp"

section \<open>The document store\<close>

text \<open>
  The store is a MongoDB collection reached through its Python driver; the plugin uses
  \<^verbatim>\<open>update_one\<close> with \<^verbatim>\<open>$set\<close> of the path \<^verbatim>\<open>settings.<key>\<close> and \<^verbatim>\<open>upsert\<close>.

  The driver encodes the update before it sends it: a key with a NUL character raises
  \<^verbatim>\<open>InvalidDocument\<close> and an integer outside the signed 64-bit range raises
  \<^verbatim>\<open>OverflowError\<close>, in the order of the items.
\<close>

fun encode_error :: "pyval \<Rightarrow> py_error option"
  and encode_items :: "(string \<times> pyval) list \<Rightarrow> py_error option" where
  "encode_error (PInt i) =
     (if - (2 ^ 63) \<le> i \<and> i < 2 ^ 63 then None else Some OverflowError)"
| "encode_error (PDict d) = encode_items d"
| "encode_error PNone = None"
| "encode_error (PBool b) = None"
| "encode_error (PFloat r) = None"
| "encode_error (PStr s) = None"
| "encode_items [] = None"
| "encode_items ((k, v) # kvs) =
     (if CHR 0x00 \<in> set k then Some InvalidDocument
      else (case encode_error v of
              Some e \<Rightarrow> Some e
            | None \<Rightarrow> encode_items kvs))"

text \<open>
  The store reads the key of \<^verbatim>\<open>$set\<close> as a path: the field names between the dots.
  A field name of a path is not empty and does not start with a dollar sign.
\<close>

fun split_dots :: "string \<Rightarrow> string list" where
  "split_dots [] = [[]]"
| "split_dots (c # cs) =
     (if c = CHR ''.'' then [] # split_dots cs
      else (case split_dots cs of
              [] \<Rightarrow> [[c]]
            | p # ps \<Rightarrow> (c # p) # ps))"

definition valid_field :: "string \<Rightarrow> bool" where
  "valid_field name = (name \<noteq> [] \<and> hd name \<noteq> CHR ''$'')"

text \<open>
  \<open>set_path d path v\<close> writes \<open>v\<close> at \<open>path\<close> below the document \<open>d\<close>: the last name
  of the path is the field written; a name before it is the sub-document to descend
  into, created when the field is missing, and a \<^verbatim>\<open>WriteError\<close> when the field holds a
  value that is no document.
\<close>

fun set_path ::
  "(string \<times> pyval) list \<Rightarrow> string list \<Rightarrow> pyval \<Rightarrow> py_error + (string \<times> pyval) list" where
  "set_path d [] v = Inl WriteError"
| "set_path d [k] v = Inr (AList.update k v d)"
| "set_path d (k # k' # ks) v =
     (case map_of d k of
        None \<Rightarrow>
          (case set_path [] (k' # ks) v of
             Inl e \<Rightarrow> Inl e
           | Inr sub \<Rightarrow> Inr (AList.update k (PDict sub) d))
      | Some (PDict old) \<Rightarrow>
          (case set_path old (k' # ks) v of
             Inl e \<Rightarrow> Inl e
           | Inr sub \<Rightarrow> Inr (AList.update k (PDict sub) d))
      | Some other \<Rightarrow> Inl WriteError)"

text \<open>
  \<^verbatim>\<open>update_one({"_id": ...}, {"$set": {"settings.<key>": value}}, upsert=True)\<close> on the
  \<^verbatim>\<open>settings\<close> of the document, \<open>None\<close> when the guild has no document yet. An error
  writes nothing.
\<close>

definition update_settings ::
  "(string \<times> pyval) list option \<Rightarrow> string \<Rightarrow> pyval \<Rightarrow> py_error + (string \<times> pyval) list" where
  "update_settings doc key v =
     (if CHR 0x00 \<in> set key then Inl InvalidDocument
      else (case encode_error v of
              Some e \<Rightarrow> Inl e
            | None \<Rightarrow>
                if \<not> list_all valid_field (split_dots key) then Inl WriteError
                else set_path (case doc of None \<Rightarrow> [] | Some settings \<Rightarrow> settings)
                       (split_dots key) v))"

text \<open>
  A plain key is a single field name that the driver and the store accept: not empty,
  no dot, no leading dollar sign, no NUL character.
\<close>

definition plain_key :: "string \<Rightarrow> bool" where
  "plain_key key =
     (key \<noteq> [] \<and> hd key \<noteq> CHR ''$'' \<and> CHR ''.'' \<notin> set key \<and> CHR 0x00 \<notin> set key)"

section \<open>Configuration management\<close>

definition defaults :: config where
  "defaults = fmap_of_list
     [(''invite_duration'', PInt 86400),
      (''invite_uses'', PInt 1),
      (''auto_create'', PBool True),
      (''fallback_channel'', PNone),
      (''rate_limit_cooldown'', PInt 60),
      (''temporary'', PBool False),
      (''cache_duration'', PInt 300)]"

definition get_config :: "plugin_state \<Rightarrow> guild_id \<Rightarrow> config" where
  "get_config s guild_id =
     (case config_docs s guild_id of
        None \<Rightarrow> defaults
      | Some settings \<Rightarrow> defaults ++\<^sub>f fmap_of_list settings)"

definition set_config ::
  "plugin_state \<Rightarrow> guild_id \<Rightarrow> string \<Rightarrow> pyval \<Rightarrow> (py_error + unit) \<times> plugin_state" where
  "set_config s guild_id key v =
     (let written =
        (case update_settings (config_docs s guild_id) key v of
           Inl e \<Rightarrow> (Inl e, s)
         | Inr settings \<Rightarrow>
             (Inr (),
              s\<lparr>config_docs := (config_docs s)(guild_id \<mapsto> settings),
                invite_cache := (invite_cache s)(guild_id := None)\<rparr>))
      in
      if key = ''invite_duration'' then
        (if \<not> isinstance_int v \<or> int_of v < 60 \<or> int_of v > 604800
         then (Inl (ValueError ''Duration must be between 60 and 604800 seconds (1 minute to 7 days)''), s)
         else written)
      else if key = ''invite_uses'' then
        (if \<not> isinstance_int v \<or> int_of v < 1 \<or> int_of v > 100
         then (Inl (ValueError ''Uses must be between 1 and 100''), s)
         else written)
      else if key = ''fallback_channel'' then
        (if v \<noteq> PNone \<and> \<not> isinstance_int v
         then (Inl (ValueError ''Fallback channel must be a channel ID or None''), s)
         else written)
      else if key = ''temporary'' then
        (if \<not> isinstance_bool v
         then (Inl (ValueError ''Temporary must be True or False''), s)
         else written)
      else if key = ''auto_create'' then
        (if \<not> isinstance_bool v
         then (Inl (ValueError ''Auto create must be True or False''), s)
         else written)
      else written)"

section \<open>Rate limiting\<close>

text \<open>
  \<^verbatim>\<open>self.rate_limits[guild_id]\<close> on the \<^verbatim>\<open>defaultdict\<close>: a missing key is stored
  with 0.0 and 0.0 is the value read.
\<close>

definition is_rate_limited ::
  "timestamp \<Rightarrow> plugin_state \<Rightarrow> guild_id \<Rightarrow> bool \<times> plugin_state" where
  "is_rate_limited now s guild_id =
     (case rate_limits s guild_id of
        None \<Rightarrow> (now < 0, s\<lparr>rate_limits := (rate_limits s)(guild_id \<mapsto> 0)\<rparr>)
      | Some cutoff \<Rightarrow> (now < cutoff, s))"

definition set_rate_limit ::
  "timestamp \<Rightarrow> plugin_state \<Rightarrow> guild_id \<Rightarrow> real \<Rightarrow> plugin_state" where
  "set_rate_limit now s guild_id duration =
     s\<lparr>rate_limits := (rate_limits s)(guild_id \<mapsto> now + duration)\<rparr>"

section \<open>Caching\<close>

text \<open>\<^verbatim>\<open>min(duration, 300)\<close> raises \<^verbatim>\<open>TypeError\<close> when the duration is no number.\<close>

definition cache_invite ::
  "timestamp \<Rightarrow> plugin_state \<Rightarrow> guild_id \<Rightarrow> string \<Rightarrow> pyval \<Rightarrow> py_error + plugin_state" where
  "cache_invite now s guild_id link duration =
     (case py_num duration of
        None \<Rightarrow> Inl TypeError
      | Some d \<Rightarrow>
          Inr (s\<lparr>invite_cache := (invite_cache s)
                 (guild_id \<mapsto> \<lparr>url = link, expires_at = now + min d 300 - 30\<rparr>)\<rparr>))"

definition get_cached_invite ::
  "timestamp \<Rightarrow> plugin_state \<Rightarrow> guild_id \<Rightarrow> string option \<times> plugin_state" where
  "get_cached_invite now s guild_id =
     (case invite_cache s guild_id of
        None \<Rightarrow> (None, s)
      | Some cached \<Rightarrow>
          if expires_at cached > now then (Some (url cached), s)
          else (None, s\<lparr>invite_cache := (invite_cache s)(guild_id := None)\<rparr>))"

section \<open>Guilds, channels and the provider\<close>

text \<open>
  What the plugin reads of the chat library's objects. \<open>create_instant_invite\<close> of a
  channel is \<^verbatim>\<open>channel.permissions_for(guild.me).create_instant_invite\<close>;
  \<open>me_create_instant_invite\<close> of a guild is
  \<^verbatim>\<open>guild.me.guild_permissions.create_instant_invite\<close>; \<open>get_channel\<close> is the guild's
  lookup of a channel by the configured identifier.
\<close>

record channel =
  channel_id :: int
  create_instant_invite :: bool

record guild =
  guild_ident :: guild_id
  me_create_instant_invite :: bool
  get_channel :: "pyval \<Rightarrow> channel option"
  text_channels :: "channel list"

record thread =
  thread_ident :: thread_id
  thread_channel :: channel
  thread_guild :: guild

datatype reason = ThreadInvite thread_id | FallbackChannel | EmergencyFallback

text \<open>
  One call of \<^verbatim>\<open>create_invite\<close>, with the library's defaults written out for the
  keyword arguments a call leaves out (\<^verbatim>\<open>temporary=False\<close>, \<^verbatim>\<open>unique=True\<close>).
\<close>

record request =
  target :: int
  max_age :: pyval
  max_uses :: pyval
  temporary :: pyval
  unique :: bool
  why :: reason

text \<open>
  The provider's answer: the invite's URL, a \<^verbatim>\<open>discord.HTTPException\<close> with its
  status and the \<^verbatim>\<open>retry_after\<close> attribute when it has one, or any other exception.
  The provider is a function of the requests made before in this invocation and of the
  request; each function returns the requests it made, in order.
\<close>

datatype response = Invite string | HTTPException int "real option" | OtherException

type_synonym provider = "request list \<Rightarrow> request \<Rightarrow> response"

definition validate_permissions :: "guild \<Rightarrow> bool \<times> string option" where
  "validate_permissions g =
     (if \<not> me_create_instant_invite g
      then (False, Some ''Bot missing CREATE_INSTANT_INVITE permission'')
      else (True, None))"

section \<open>Invite creation\<close>

definition emergency_request :: "channel \<Rightarrow> request" where
  "emergency_request c =
     \<lparr>target = channel_id c, max_age = PInt 3600, max_uses = PInt 1,
      temporary = PBool False, unique = True, why = EmergencyFallback\<rparr>"

text \<open>
  The final loop of \<^verbatim>\<open>try_fallback_channel\<close> over \<^verbatim>\<open>guild.text_channels\<close>: an
  \<^verbatim>\<open>HTTPException\<close> goes on to the next channel, any other exception leaves the loop
  and the function, the end of the list returns \<^verbatim>\<open>None\<close>.
\<close>

fun emergency_scan ::
  "provider \<Rightarrow> request list \<Rightarrow> channel list \<Rightarrow> (py_error + string option) \<times> request list" where
  "emergency_scan net made [] = (Inr None, made)"
| "emergency_scan net made (c # cs) =
     (if create_instant_invite c then
        (case net made (emergency_request c) of
           Invite link \<Rightarrow> (Inr (Some link), made @ [emergency_request c])
         | HTTPException status retry \<Rightarrow> emergency_scan net (made @ [emergency_request c]) cs
         | OtherException \<Rightarrow> (Inl ProviderError, made @ [emergency_request c]))
      else emergency_scan net made cs)"

definition configured_request :: "channel \<Rightarrow> pyval \<Rightarrow> pyval \<Rightarrow> config \<Rightarrow> request" where
  "configured_request c duration uses cfg =
     \<lparr>target = channel_id c, max_age = duration, max_uses = uses,
      temporary = dict_get cfg ''temporary'' (PBool False),
      unique = True, why = FallbackChannel\<rparr>"

text \<open>
  \<^verbatim>\<open>try_fallback_channel\<close>. \<open>made\<close> holds the requests already made; \<open>now\<close> is the
  clock read by \<^verbatim>\<open>cache_invite\<close>. The exceptions of \<^verbatim>\<open>config["invite_duration"]\<close>,
  of \<^verbatim>\<open>cache_invite\<close> and of the provider that are no \<^verbatim>\<open>HTTPException\<close> leave the
  function.
\<close>

definition try_fallback_channel ::
  "provider \<Rightarrow> timestamp \<Rightarrow> plugin_state \<Rightarrow> guild \<Rightarrow> config \<Rightarrow> request list
   \<Rightarrow> (py_error + string option) \<times> plugin_state \<times> request list" where
  "try_fallback_channel net now s g cfg made =
     (let fallback_id = dict_get cfg ''fallback_channel'' PNone;
          final = (\<lambda>made'. (fst (emergency_scan net made' (text_channels g)), s,
                           snd (emergency_scan net made' (text_channels g))))
      in
      if truthy fallback_id then
        (case get_channel g fallback_id of
           None \<Rightarrow> final made
         | Some c \<Rightarrow>
             if create_instant_invite c then
               (case fmlookup cfg ''invite_duration'' of
                  None \<Rightarrow> (Inl KeyError, s, made)
                | Some duration \<Rightarrow>
                    (case fmlookup cfg ''invite_uses'' of
                       None \<Rightarrow> (Inl KeyError, s, made)
                     | Some uses \<Rightarrow>
                         (case net made (configured_request c duration uses cfg) of
                            Invite link \<Rightarrow>
                              (case cache_invite now s (guild_ident g) link duration of
                                 Inl e \<Rightarrow> (Inl e, s, made @ [configured_request c duration uses cfg])
                               | Inr s' \<Rightarrow>
                                   (Inr (Some link), s', made @ [configured_request c duration uses cfg]))
                          | HTTPException status retry \<Rightarrow>
                              final (made @ [configured_request c duration uses cfg])
                          | OtherException \<Rightarrow>
                              (Inl ProviderError, s, made @ [configured_request c duration uses cfg]))))
             else final made)
      else final made)"

definition primary_request :: "thread \<Rightarrow> pyval \<Rightarrow> pyval \<Rightarrow> config \<Rightarrow> request" where
  "primary_request t duration uses cfg =
     \<lparr>target = channel_id (thread_channel t), max_age = duration, max_uses = uses,
      temporary = dict_get cfg ''temporary'' (PBool False),
      unique = True, why = ThreadInvite (thread_ident t)\<rparr>"

text \<open>
  \<^verbatim>\<open>if not config: config = await self.get_config(thread.guild.id)\<close>: no configuration
  and the empty dict both load the stored one.
\<close>

definition effective_config :: "plugin_state \<Rightarrow> thread \<Rightarrow> config option \<Rightarrow> config" where
  "effective_config s t cfg =
     (case cfg of
        None \<Rightarrow> get_config s (guild_ident (thread_guild t))
      | Some c \<Rightarrow> if c = fmempty then get_config s (guild_ident (thread_guild t)) else c)"

text \<open>
  \<^verbatim>\<open>create_thread_invite\<close>. \<open>clk k\<close> is the value of the \<open>k\<close>-th call of
  \<^verbatim>\<open>time.time()\<close> in this invocation (from 0). The result is the value returned (or
  the exception that leaves the function), the state afterwards and the requests made to
  the provider. Inside the \<^verbatim>\<open>try\<close>, a missing configuration key, a \<^verbatim>\<open>TypeError\<close> of
  \<^verbatim>\<open>cache_invite\<close> and a provider exception that is no \<^verbatim>\<open>HTTPException\<close> are caught
  by \<^verbatim>\<open>except Exception\<close> and return \<^verbatim>\<open>None\<close>.
\<close>

definition create_thread_invite ::
  "provider \<Rightarrow> (nat \<Rightarrow> timestamp) \<Rightarrow> plugin_state \<Rightarrow> thread \<Rightarrow> config option
   \<Rightarrow> (py_error + string option) \<times> plugin_state \<times> request list" where
  "create_thread_invite net clk s t cfg0 =
     (let cfg = effective_config s t cfg0;
          g = thread_guild t
      in
      if \<not> fst (validate_permissions g) then (Inr None, s, [])
      else if fst (is_rate_limited (clk 0) s (guild_ident g)) then
        (let s1 = snd (is_rate_limited (clk 0) s (guild_ident g));
             cached = fst (get_cached_invite (clk 1) s1 (guild_ident g));
             s2 = snd (get_cached_invite (clk 1) s1 (guild_ident g))
         in
         case cached of
           None \<Rightarrow> (Inr None, s2, [])
         | Some link \<Rightarrow> if link \<noteq> [] then (Inr (Some link), s2, []) else (Inr None, s2, []))
      else
        (let s1 = snd (is_rate_limited (clk 0) s (guild_ident g)) in
         case fmlookup cfg ''invite_duration'' of
           None \<Rightarrow> (Inr None, s1, [])
         | Some duration \<Rightarrow>
             (case fmlookup cfg ''invite_uses'' of
                None \<Rightarrow> (Inr None, s1, [])
              | Some uses \<Rightarrow>
                  (case net [] (primary_request t duration uses cfg) of
                     Invite link \<Rightarrow>
                       (case cache_invite (clk 1) s1 (guild_ident g) link duration of
                          Inl e \<Rightarrow> (Inr None, s1, [primary_request t duration uses cfg])
                        | Inr s2 \<Rightarrow> (Inr (Some link), s2, [primary_request t duration uses cfg]))
                   | HTTPException status retry \<Rightarrow>
                       if status = 429 then
                         (let retry_after = (case retry of None \<Rightarrow> 60 | Some r \<Rightarrow> r);
                              s2 = set_rate_limit (clk 1) s1 (guild_ident g) retry_after
                          in (Inr (fst (get_cached_invite (clk 2) s2 (guild_ident g))),
                              snd (get_cached_invite (clk 2) s2 (guild_ident g)),
                              [primary_request t duration uses cfg]))
                       else if status = 403 then
                         try_fallback_channel net (clk 1) s1 g cfg
                           [primary_request t duration uses cfg]
                       else (Inr None, s1, [primary_request t duration uses cfg])
                   | OtherException \<Rightarrow> (Inr None, s1, [primary_request t duration uses cfg])))))"

section \<open>Maintenance\<close>

text \<open>
  \<^verbatim>\<open>cleanup_expired_data\<close>: \<open>utcnow\<close> is the value of \<^verbatim>\<open>datetime.utcnow()\<close> and
  \<open>current_time\<close> that of \<^verbatim>\<open>time.time()\<close>; seven days are 604800 seconds.
\<close>

definition cleanup_expired_data :: "timestamp \<Rightarrow> timestamp \<Rightarrow> plugin_state \<Rightarrow> plugin_state" where
  "cleanup_expired_data utcnow current_time s =
     (let cutoff = utcnow - 604800 in
      s\<lparr>thread_docs :=
          (\<lambda>k. case thread_docs s k of
                 None \<Rightarrow> None
               | Some r \<Rightarrow> if created_at r < cutoff then None else Some r),
        invite_cache :=
          (\<lambda>k. case invite_cache s k of
                 None \<Rightarrow> None
               | Some v \<Rightarrow> if expires_at v \<le> current_time then None else Some v)\<rparr>)"

section \<open>Example inputs\<close>

definition empty_state :: plugin_state where
  "empty_state = \<lparr>config_docs = Map.empty, thread_docs = Map.empty,
                  invite_cache = Map.empty, rate_limits = Map.empty\<rparr>"

definition channel_denied :: channel where
  "channel_denied = \<lparr>channel_id = 101, create_instant_invite = False\<rparr>"

definition channel_open :: channel where
  "channel_open = \<lparr>channel_id = 102, create_instant_invite = True\<rparr>"

definition example_guild :: "bool \<Rightarrow> guild" where
  "example_guild permitted =
     \<lparr>guild_ident = 7, me_create_instant_invite = permitted,
      get_channel = (\<lambda>v. if v = PInt 102 then Some channel_open else None),
      text_channels = [channel_denied, channel_open]\<rparr>"

definition example_thread :: "bool \<Rightarrow> thread" where
  "example_thread permitted =
     \<lparr>thread_ident = 55,
      thread_channel = \<lparr>channel_id = 100, create_instant_invite = False\<rparr>,
      thread_guild = example_guild permitted\<rparr>"

definition example_clock :: "nat \<Rightarrow> timestamp" where
  "example_clock k = 1000 + real k"

definition old_record :: thread_record where
  "old_record = \<lparr>invite_url = ''https://discord.gg/old'', created_at = 1000,
                 tr_guild_id = 7, tr_thread_id = 1\<rparr>"

definition new_record :: thread_record where
  "new_record = \<lparr>invite_url = ''https://discord.gg/new'', created_at = 700000,
                 tr_guild_id = 7, tr_thread_id = 2\<rparr>"

definition swept_state :: plugin_state where
  "swept_state =
     \<lparr>config_docs = Map.empty,
      thread_docs = [1 \<mapsto> old_record, 2 \<mapsto> new_record],
      invite_cache = [7 \<mapsto> \<lparr>url = ''https://discord.gg/a'', expires_at = 500\<rparr>,
                      8 \<mapsto> \<lparr>url = ''https://discord.gg/b'', expires_at = 900\<rparr>],
      rate_limits = Map.empty\<rparr>"

section \<open>Vocabulary of the fallback properties\<close>

text \<open>
  \<open>permitted_requests cs\<close> are the emergency requests for the channels of \<open>cs\<close> on which
  the bot may create invites, in the order of \<open>cs\<close>. \<open>all_fail net made rs\<close> says that
  the requests \<open>rs\<close>, made one after the other once \<open>made\<close> have been made, all fail with
  an \<^verbatim>\<open>HTTPException\<close>. \<open>configured_tier_skipped\<close> says that the first tier makes no
  request: no fallback channel is configured, the guild does not know it, or the bot may
  not create invites there.
\<close>

fun is_http_failure :: "response \<Rightarrow> bool" where
  "is_http_failure (HTTPException status retry) = True"
| "is_http_failure r = False"

fun all_fail :: "provider \<Rightarrow> request list \<Rightarrow> request list \<Rightarrow> bool" where
  "all_fail net made [] = True"
| "all_fail net made (r # rs) = (is_http_failure (net made r) \<and> all_fail net (made @ [r]) rs)"

definition permitted_requests :: "channel list \<Rightarrow> request list" where
  "permitted_requests cs = map emergency_request (filter create_instant_invite cs)"

definition configured_tier_skipped :: "guild \<Rightarrow> config \<Rightarrow> bool" where
  "configured_tier_skipped g cfg =
     (if truthy (dict_get cfg ''fallback_channel'' PNone)
      then (case get_channel g (dict_get cfg ''fallback_channel'' PNone) of
              None \<Rightarrow> True
            | Some c \<Rightarrow> \<not> create_instant_invite c)
      else True)"

text \<open>Providers of the examples.\<close>

definition throttling_provider :: provider where
  "throttling_provider made r = HTTPException 429 (Some 30)"

definition emergency_only_provider :: provider where
  "emergency_only_provider made r =
     (if why r = EmergencyFallback then Invite ''https://discord.gg/emergency''
      else HTTPException 403 None)"

definition refusing_provider :: provider where
  "refusing_provider made r = HTTPException 403 None"

definition fallback_state :: plugin_state where
  "fallback_state =
     \<lparr>config_docs = [7 \<mapsto> [(''fallback_channel'', PInt 102)]],
      thread_docs = Map.empty, invite_cache = Map.empty, rate_limits = Map.empty\<rparr>"

definition limited_state :: plugin_state where
  "limited_state =
     \<lparr>config_docs = [7 \<mapsto> [(''fallback_channel'', PInt 102)]],
      thread_docs = Map.empty,
      invite_cache = [7 \<mapsto> \<lparr>url = ''https://discord.gg/a'', expires_at = 1500\<rparr>],
      rate_limits = [7 \<mapsto> 1200]\<rparr>"

section \<open>Rate limiter\<close>

text \<open>
  Claim C6. \<open>is_rate_limited\<close> is true exactly while the clock is strictly below the stored
  cutoff; a guild with no stored cutoff reads the default 0.0 and is not limited (the clock
  counts seconds since the epoch, so it is not negative); \<open>set_rate_limit g d\<close> at time
  \<open>T\<close> stores the cutoff \<open>T + d\<close>; after \<open>set_rate_limit g 60\<close> at \<open>T\<close> the guild is limited
  at \<open>T + 59\<close> and not limited at \<open>T + 61\<close>.
\<close>

theorem rate_limit_cutoff:
  "(rate_limits s g = Some cutoff \<longrightarrow> fst (is_rate_limited now s g) = (now < cutoff))
   \<and> (rate_limits s g = None \<and> 0 \<le> now \<longrightarrow> \<not> fst (is_rate_limited now s g))
   \<and> rate_limits (set_rate_limit T s g d) g = Some (T + d)
   \<and> fst (is_rate_limited (T + 59) (set_rate_limit T s g 60) g)
   \<and> \<not> fst (is_rate_limited (T + 61) (set_rate_limit T s g 60) g)"
  by (simp add: is_rate_limited_def set_rate_limit_def)

theorem rate_limit_cutoff_witness:
  "rate_limits (empty_state\<lparr>rate_limits := [7 \<mapsto> 1060]\<rparr>) 7 = Some 1060
   \<and> fst (is_rate_limited 1059 (empty_state\<lparr>rate_limits := [7 \<mapsto> 1060]\<rparr>) 7)
   \<and> rate_limits empty_state 7 = None \<and> (0::real) \<le> 1000
   \<and> \<not> fst (is_rate_limited 1000 empty_state 7)"
  using rate_limit_cutoff [of "empty_state\<lparr>rate_limits := [7 \<mapsto> 1060]\<rparr>" 7 1060 1059]
        rate_limit_cutoff [of empty_state 7 _ 1000]
  by (simp add: empty_state_def)

section \<open>Invite cache\<close>

text \<open>
  Claim C4. \<open>cache_invite\<close> at time \<open>T\<close> with the configured duration \<open>D\<close> stores the URL
  with expiry \<open>T + min D 300 - 30\<close>. \<open>get_cached_invite\<close> returns the stored URL exactly
  when the stored expiry is strictly greater than the clock; otherwise it returns nothing
  and the entry is gone. So a value placed at \<open>T\<close> is returned at \<open>T + min D 300 - 31\<close>
  and not at \<open>T + min D 300 - 29\<close>.
\<close>

theorem cache_put_get:
  "cache_invite T s g link (PInt D)
     = Inr (s\<lparr>invite_cache := (invite_cache s)
              (g \<mapsto> \<lparr>url = link, expires_at = T + real_of_int (min D 300) - 30\<rparr>)\<rparr>)
   \<and> (invite_cache s g = Some c \<and> now < expires_at c
        \<longrightarrow> get_cached_invite now s g = (Some (url c), s))
   \<and> (invite_cache s g = Some c \<and> \<not> now < expires_at c
        \<longrightarrow> get_cached_invite now s g = (None, s\<lparr>invite_cache := (invite_cache s)(g := None)\<rparr>))
   \<and> (invite_cache s g = None \<longrightarrow> get_cached_invite now s g = (None, s))
   \<and> (\<forall>s'. cache_invite T s g link (PInt D) = Inr s' \<longrightarrow>
         fst (get_cached_invite (T + real_of_int (min D 300) - 31) s' g) = Some link
         \<and> fst (get_cached_invite (T + real_of_int (min D 300) - 29) s' g) = None
         \<and> invite_cache (snd (get_cached_invite (T + real_of_int (min D 300) - 29) s' g)) g = None)"
  by (auto simp add: cache_invite_def get_cached_invite_def min_def)

theorem cache_put_get_witness:
  "invite_cache swept_state 8 = Some \<lparr>url = ''https://discord.gg/b'', expires_at = 900\<rparr>
   \<and> get_cached_invite 899 swept_state 8 = (Some ''https://discord.gg/b'', swept_state)
   \<and> fst (get_cached_invite 900 swept_state 8) = None
   \<and> invite_cache (snd (get_cached_invite 900 swept_state 8)) 8 = None
   \<and> invite_cache empty_state 7 = None
   \<and> get_cached_invite 5 empty_state 7 = (None, empty_state)
   \<and> (\<exists>s'. cache_invite 1000 empty_state 7 ''https://discord.gg/c'' (PInt 86400) = Inr s'
         \<and> invite_cache s' 7 = Some \<lparr>url = ''https://discord.gg/c'', expires_at = 1270\<rparr>
         \<and> fst (get_cached_invite 1269 s' 7) = Some ''https://discord.gg/c''
         \<and> fst (get_cached_invite 1271 s' 7) = None)"
  using cache_put_get [of 1000 empty_state 7 "''https://discord.gg/c''" 86400
                          "\<lparr>url = ''https://discord.gg/b'', expires_at = 900\<rparr>" 899]
        cache_put_get [of 0 swept_state 8 "[]" 0
                          "\<lparr>url = ''https://discord.gg/b'', expires_at = 900\<rparr>" 899]
        cache_put_get [of 0 swept_state 8 "[]" 0
                          "\<lparr>url = ''https://discord.gg/b'', expires_at = 900\<rparr>" 900]
        cache_put_get [of 0 empty_state 7 "[]" 0 _ 5]
  by (simp add: empty_state_def swept_state_def)

section \<open>Configuration store\<close>

lemma split_dots_plain: "CHR ''.'' \<notin> set key \<Longrightarrow> split_dots key = [key]"
  by (induction key) auto

lemma set_config_written:
  "set_config s g key v = (Inr (), s') \<Longrightarrow>
   \<exists>settings. update_settings (config_docs s g) key v = Inr settings
     \<and> s' = s\<lparr>config_docs := (config_docs s)(g \<mapsto> settings),
              invite_cache := (invite_cache s)(g := None)\<rparr>"
  by (simp add: set_config_def Let_def split: if_split_asm sum.split_asm)

lemma update_settings_plain:
  "CHR ''.'' \<notin> set key \<Longrightarrow> update_settings doc key v = Inr settings \<Longrightarrow>
     map_of settings key = Some v"
  by (auto simp add: update_settings_def split_dots_plain update_conv'
        split: if_split_asm option.split_asm)

lemma update_settings_plain_ok:
  "plain_key key \<Longrightarrow> encode_error v = None \<Longrightarrow>
     update_settings doc key v
       = Inr (AList.update key v (case doc of None \<Rightarrow> [] | Some settings \<Rightarrow> settings))"
  by (simp add: update_settings_def plain_key_def split_dots_plain valid_field_def)

lemma get_config_stored:
  "config_docs s g = Some settings \<Longrightarrow> map_of settings key = Some v \<Longrightarrow>
     fmlookup (get_config s g) key = Some v"
proof -
  assume doc: "config_docs s g = Some settings" and hit: "map_of settings key = Some v"
  from hit have "(key, v) \<in> set settings" by (rule map_of_SomeD)
  then have "key \<in> fst ` set settings" by force
  with doc hit show ?thesis
    by (simp add: get_config_def fmlookup_of_list fset_of_list.rep_eq)
qed

lemma set_config_not_validated:
  "key \<notin> {''invite_duration'', ''invite_uses'', ''fallback_channel'', ''temporary'',
            ''auto_create''} \<Longrightarrow>
     set_config s g key v =
       (case update_settings (config_docs s g) key v of
          Inl e \<Rightarrow> (Inl e, s)
        | Inr settings \<Rightarrow>
            (Inr (),
             s\<lparr>config_docs := (config_docs s)(g \<mapsto> settings),
               invite_cache := (invite_cache s)(g := None)\<rparr>))"
  by (simp add: set_config_def Let_def)

lemma encode_no_value_error:
  "encode_error v \<noteq> Some (ValueError msg)" "encode_items d \<noteq> Some (ValueError msg)"
  by (induction v and d rule: encode_error_encode_items.induct)
     (auto split: option.splits)

lemma set_path_no_value_error: "set_path d path v \<noteq> Inl (ValueError msg)"
  by (induction d path v rule: set_path.induct)
     (auto split: option.splits pyval.splits sum.splits)

lemma update_settings_no_value_error:
  "update_settings doc key v \<noteq> Inl (ValueError msg)"
  using encode_no_value_error(1) [of v msg] set_path_no_value_error
  by (auto simp add: update_settings_def split: option.splits)

text \<open>
  Claim C7. For every guild, \<open>set_config\<close> of \<open>invite_duration\<close> with an integer below 60
  or above 604800, and of \<open>invite_uses\<close> with an integer below 1 or above 100, raises the
  validation error and leaves the whole state, the stored configuration with it,
  as it was.
\<close>

theorem set_config_out_of_range:
  "(i < 60 \<or> 604800 < i \<longrightarrow>
      set_config s g ''invite_duration'' (PInt i)
        = (Inl (ValueError ''Duration must be between 60 and 604800 seconds (1 minute to 7 days)''), s))
   \<and> (j < 1 \<or> 100 < j \<longrightarrow>
      set_config s g ''invite_uses'' (PInt j)
        = (Inl (ValueError ''Uses must be between 1 and 100''), s))"
  by (simp add: set_config_def)

theorem set_config_out_of_range_witness:
  "((30::int) < 60 \<or> 604800 < (30::int))
   \<and> set_config swept_state 7 ''invite_duration'' (PInt 30)
        = (Inl (ValueError ''Duration must be between 60 and 604800 seconds (1 minute to 7 days)''),
           swept_state)
   \<and> ((150::int) < 1 \<or> 100 < (150::int))
   \<and> set_config swept_state 7 ''invite_uses'' (PInt 150)
        = (Inl (ValueError ''Uses must be between 1 and 100''), swept_state)"
  using set_config_out_of_range [of 30 swept_state 7 150]
  by simp

text \<open>
  Claim C8 as it is stated, for every successful set, fails at a key with a dot:
  \<open>set_config\<close> of \<open>a.b\<close> succeeds, the store writes the field \<open>b\<close> of the sub-document
  \<open>a\<close>, and \<open>get_config\<close> has nothing under the key \<open>a.b\<close>.
\<close>

theorem set_config_dotted_key_counterexample:
  "fst (set_config empty_state 7 ''a.b'' (PInt 1)) = Inr ()
   \<and> config_docs (snd (set_config empty_state 7 ''a.b'' (PInt 1))) 7
       = Some [(''a'', PDict [(''b'', PInt 1)])]
   \<and> \<not> (fst (set_config empty_state 7 ''a.b'' (PInt 1)) = Inr ()
          \<longrightarrow> fmlookup (get_config (snd (set_config empty_state 7 ''a.b'' (PInt 1))) 7) ''a.b''
                = Some (PInt 1)
            \<and> invite_cache (snd (set_config empty_state 7 ''a.b'' (PInt 1))) 7 = None)"
proof -
  have run: "set_config empty_state 7 ''a.b'' (PInt 1)
      = (Inr (), empty_state\<lparr>config_docs := (config_docs empty_state)
                                (7 \<mapsto> [(''a'', PDict [(''b'', PInt 1)])]),
                            invite_cache := (invite_cache empty_state)(7 := None)\<rparr>)"
    by (simp add: set_config_not_validated update_settings_def valid_field_def empty_state_def)
  show ?thesis
    unfolding run
    by (simp add: get_config_def defaults_def fmlookup_of_list)
qed

text \<open>
  Claim C8, amended. After a \<open>set_config\<close> that succeeds the guild has no entry in the
  invite cache, and when the key contains no dot, \<open>get_config\<close> of the guild holds the
  new value under the updated key.
\<close>

theorem set_config_then_get:
  assumes "fst (set_config s g key v) = Inr ()"
  shows "invite_cache (snd (set_config s g key v)) g = None
     \<and> (CHR ''.'' \<notin> set key
          \<longrightarrow> fmlookup (get_config (snd (set_config s g key v)) g) key = Some v)"
proof -
  obtain s' where eq: "set_config s g key v = (Inr (), s')"
    using assms by (cases "set_config s g key v") simp
  from set_config_written [OF eq] obtain settings
    where upd: "update_settings (config_docs s g) key v = Inr settings"
      and s': "s' = s\<lparr>config_docs := (config_docs s)(g \<mapsto> settings),
                       invite_cache := (invite_cache s)(g := None)\<rparr>"
    by blast
  have "fmlookup (get_config s' g) key = Some v" if "CHR ''.'' \<notin> set key"
  proof (rule get_config_stored)
    show "config_docs s' g = Some settings" by (simp add: s')
    show "map_of settings key = Some v" using that upd by (rule update_settings_plain)
  qed
  then show ?thesis by (simp add: eq) (simp add: s')
qed

theorem set_config_then_get_witness:
  "fst (set_config swept_state 7 ''invite_duration'' (PInt 120)) = Inr ()
   \<and> CHR ''.'' \<notin> set ''invite_duration''
   \<and> fmlookup (get_config (snd (set_config swept_state 7 ''invite_duration'' (PInt 120))) 7)
        ''invite_duration'' = Some (PInt 120)
   \<and> invite_cache swept_state 7 \<noteq> None
   \<and> invite_cache (snd (set_config swept_state 7 ''invite_duration'' (PInt 120))) 7 = None"
proof -
  have ok: "fst (set_config swept_state 7 ''invite_duration'' (PInt 120)) = Inr ()"
    by (simp add: set_config_def Let_def update_settings_def valid_field_def swept_state_def)
  have "invite_cache swept_state 7 \<noteq> None"
    by (simp add: swept_state_def)
  with ok set_config_then_get [OF ok] show ?thesis by simp
qed

text \<open>
  Claim C10 as it is stated, for every value, fails at an integer the store cannot hold:
  \<open>set_config\<close> of \<open>rate_limit_cooldown\<close> with \<open>2 ^ 64\<close> passes no validation, the driver
  raises \<^verbatim>\<open>OverflowError\<close>, and nothing is persisted.
\<close>

theorem set_config_overflow_counterexample:
  "set_config empty_state 7 ''rate_limit_cooldown'' (PInt (2 ^ 64)) = (Inl OverflowError, empty_state)
   \<and> \<not> (fst (set_config empty_state 7 ''rate_limit_cooldown'' (PInt (2 ^ 64))) = Inr ()
          \<and> fmlookup (get_config (snd (set_config empty_state 7 ''rate_limit_cooldown''
                                          (PInt (2 ^ 64)))) 7) ''rate_limit_cooldown''
              = Some (PInt (2 ^ 64)))"
  by (simp add: set_config_not_validated update_settings_def)

text \<open>
  Claim C10, amended. \<open>set_config\<close> with the key \<open>rate_limit_cooldown\<close> or
  \<open>cache_duration\<close>, and with every key that is none of the five validated ones, raises
  no validation error, whatever the value: no range or type check applies. With these two
  keys, and with every plain key that is none of the five, every value that the driver
  can encode is stored as it is and read back by \<open>get_config\<close>.
\<close>

theorem set_config_unvalidated_keys:
  "(\<forall>msg. fst (set_config s g ''rate_limit_cooldown'' v) \<noteq> Inl (ValueError msg))
   \<and> (\<forall>msg. fst (set_config s g ''cache_duration'' v) \<noteq> Inl (ValueError msg))
   \<and> (encode_error v = None
        \<longrightarrow> fst (set_config s g ''rate_limit_cooldown'' v) = Inr ()
          \<and> fmlookup (get_config (snd (set_config s g ''rate_limit_cooldown'' v)) g)
               ''rate_limit_cooldown'' = Some v
          \<and> fst (set_config s g ''cache_duration'' v) = Inr ()
          \<and> fmlookup (get_config (snd (set_config s g ''cache_duration'' v)) g)
               ''cache_duration'' = Some v)
   \<and> (key \<notin> {''invite_duration'', ''invite_uses'', ''fallback_channel'', ''temporary'',
               ''auto_create''}
        \<longrightarrow> (\<forall>msg. fst (set_config s g key v) \<noteq> Inl (ValueError msg))
          \<and> (plain_key key \<and> encode_error v = None
               \<longrightarrow> fst (set_config s g key v) = Inr ()
                 \<and> fmlookup (get_config (snd (set_config s g key v)) g) key = Some v))"
proof -
  have free: "\<forall>msg. fst (set_config s g k v) \<noteq> Inl (ValueError msg)"
    if "k \<notin> {''invite_duration'', ''invite_uses'', ''fallback_channel'', ''temporary'',
              ''auto_create''}" for k
    using update_settings_no_value_error [of "config_docs s g" k v]
    by (auto simp add: set_config_not_validated [OF that] split: sum.splits)
  have stored: "fst (set_config s g k v) = Inr ()
      \<and> fmlookup (get_config (snd (set_config s g k v)) g) k = Some v"
    if "k \<notin> {''invite_duration'', ''invite_uses'', ''fallback_channel'', ''temporary'',
              ''auto_create''}" "plain_key k" "encode_error v = None" for k
  proof -
    let ?d = "AList.update k v (case config_docs s g of None \<Rightarrow> [] | Some settings \<Rightarrow> settings)"
    let ?s' = "s\<lparr>config_docs := (config_docs s)(g \<mapsto> ?d),
                 invite_cache := (invite_cache s)(g := None)\<rparr>"
    have run: "set_config s g k v = (Inr (), ?s')"
      using that(2,3)
      by (simp add: set_config_not_validated [OF that(1)] update_settings_plain_ok)
    have "fmlookup (get_config ?s' g) k = Some v"
      by (rule get_config_stored [where settings = ?d]) (simp_all add: update_conv')
    then show ?thesis by (simp add: run)
  qed
  have k1: "''rate_limit_cooldown'' \<notin> {''invite_duration'', ''invite_uses'',
              ''fallback_channel'', ''temporary'', ''auto_create''}"
    and k2: "''cache_duration'' \<notin> {''invite_duration'', ''invite_uses'',
              ''fallback_channel'', ''temporary'', ''auto_create''}"
    and p1: "plain_key ''rate_limit_cooldown''" and p2: "plain_key ''cache_duration''"
    by (simp_all add: plain_key_def)
  show ?thesis
  proof (intro conjI impI)
    show "\<forall>msg. fst (set_config s g ''rate_limit_cooldown'' v) \<noteq> Inl (ValueError msg)"
      by (rule free [OF k1])
    show "\<forall>msg. fst (set_config s g ''cache_duration'' v) \<noteq> Inl (ValueError msg)"
      by (rule free [OF k2])
  next
    assume e: "encode_error v = None"
    from stored [OF k1 p1 e]
    show "fst (set_config s g ''rate_limit_cooldown'' v) = Inr ()"
      and "fmlookup (get_config (snd (set_config s g ''rate_limit_cooldown'' v)) g)
             ''rate_limit_cooldown'' = Some v"
      by simp_all
    from stored [OF k2 p2 e]
    show "fst (set_config s g ''cache_duration'' v) = Inr ()"
      and "fmlookup (get_config (snd (set_config s g ''cache_duration'' v)) g)
             ''cache_duration'' = Some v"
      by simp_all
  next
    assume k: "key \<notin> {''invite_duration'', ''invite_uses'', ''fallback_channel'', ''temporary'',
               ''auto_create''}"
    show "\<forall>msg. fst (set_config s g key v) \<noteq> Inl (ValueError msg)"
      by (rule free [OF k])
    assume pe: "plain_key key \<and> encode_error v = None"
    from stored [OF k] pe
    show "fst (set_config s g key v) = Inr ()"
      and "fmlookup (get_config (snd (set_config s g key v)) g) key = Some v"
      by simp_all
  qed
qed

theorem set_config_unvalidated_keys_witness:
  "encode_error (PStr ''soon'') = None
   \<and> fst (set_config empty_state 7 ''rate_limit_cooldown'' (PStr ''soon'')) = Inr ()
   \<and> fmlookup (get_config (snd (set_config empty_state 7 ''rate_limit_cooldown'' (PStr ''soon''))) 7)
        ''rate_limit_cooldown'' = Some (PStr ''soon'')
   \<and> ''colour'' \<notin> {''invite_duration'', ''invite_uses'', ''fallback_channel'', ''temporary'',
                    ''auto_create''}
   \<and> plain_key ''colour'' \<and> encode_error (PInt (- 5)) = None
   \<and> fst (set_config empty_state 7 ''colour'' (PInt (- 5))) = Inr ()
   \<and> fmlookup (get_config (snd (set_config empty_state 7 ''colour'' (PInt (- 5)))) 7) ''colour''
        = Some (PInt (- 5))"
  using set_config_unvalidated_keys [of empty_state 7 "PStr ''soon''" "''colour''"]
        set_config_unvalidated_keys [of empty_state 7 "PInt (- 5)" "''colour''"]
  by (simp add: plain_key_def)

section \<open>Cleanup sweeper\<close>

text \<open>
  Claim C9. One run of \<open>cleanup_expired_data\<close> deletes the thread records created more
  than seven days before \<open>utcnow\<close> and keeps every other record as it is; it evicts the
  cache entries whose expiry is not after \<open>current_time\<close> and keeps every other entry as
  it is; it creates no record and no entry, and leaves the configuration and the rate
  limits alone.
\<close>

theorem cleanup_exact:
  "(thread_docs s k = Some r \<and> created_at r < utcnow - 7 * 86400
      \<longrightarrow> thread_docs (cleanup_expired_data utcnow current_time s) k = None)
   \<and> (thread_docs s k = Some r \<and> \<not> created_at r < utcnow - 7 * 86400
      \<longrightarrow> thread_docs (cleanup_expired_data utcnow current_time s) k = Some r)
   \<and> (thread_docs s k = None
      \<longrightarrow> thread_docs (cleanup_expired_data utcnow current_time s) k = None)
   \<and> (invite_cache s g = Some c \<and> expires_at c \<le> current_time
      \<longrightarrow> invite_cache (cleanup_expired_data utcnow current_time s) g = None)
   \<and> (invite_cache s g = Some c \<and> current_time < expires_at c
      \<longrightarrow> invite_cache (cleanup_expired_data utcnow current_time s) g = Some c)
   \<and> (invite_cache s g = None
      \<longrightarrow> invite_cache (cleanup_expired_data utcnow current_time s) g = None)
   \<and> config_docs (cleanup_expired_data utcnow current_time s) = config_docs s
   \<and> rate_limits (cleanup_expired_data utcnow current_time s) = rate_limits s"
  by (simp add: cleanup_expired_data_def)

theorem cleanup_exact_witness:
  "thread_docs swept_state 1 = Some old_record \<and> created_at old_record < 1000000 - 7 * 86400
   \<and> thread_docs (cleanup_expired_data 1000000 600 swept_state) 1 = None
   \<and> thread_docs swept_state 2 = Some new_record
   \<and> \<not> created_at new_record < 1000000 - 7 * 86400
   \<and> thread_docs (cleanup_expired_data 1000000 600 swept_state) 2 = Some new_record
   \<and> invite_cache swept_state 7 = Some \<lparr>url = ''https://discord.gg/a'', expires_at = 500\<rparr>
   \<and> invite_cache (cleanup_expired_data 1000000 600 swept_state) 7 = None
   \<and> invite_cache (cleanup_expired_data 1000000 600 swept_state) 8
        = Some \<lparr>url = ''https://discord.gg/b'', expires_at = 900\<rparr>"
  using cleanup_exact [of swept_state 1 old_record 1000000 600 7
                          "\<lparr>url = ''https://discord.gg/a'', expires_at = 500\<rparr>"]
        cleanup_exact [of swept_state 2 new_record 1000000 600 8
                          "\<lparr>url = ''https://discord.gg/b'', expires_at = 900\<rparr>"]
  by (simp add: swept_state_def old_record_def new_record_def)

section \<open>Invite creation\<close>

text \<open>
  Claim C5. When the bot lacks the invite-creation permission on the guild,
  \<open>create_thread_invite\<close> returns no invite, makes no request to the provider and
  returns the state it was given: cache and rate limits are unchanged.
\<close>

theorem no_permission_no_effect:
  "\<not> me_create_instant_invite (thread_guild t) \<Longrightarrow>
     create_thread_invite net clk s t cfg = (Inr None, s, [])"
  by (simp add: create_thread_invite_def validate_permissions_def)

theorem no_permission_no_effect_witness:
  "\<not> me_create_instant_invite (thread_guild (example_thread False))
   \<and> create_thread_invite (\<lambda>made r. Invite ''https://discord.gg/x'') example_clock swept_state
        (example_thread False) None = (Inr None, swept_state, [])"
  using no_permission_no_effect
          [of "example_thread False" "\<lambda>made r. Invite ''https://discord.gg/x''"
              example_clock swept_state None]
  by (simp add: example_thread_def example_guild_def)

subsection \<open>The emergency loop\<close>

lemma emergency_scan_none:
  "all_fail net made (permitted_requests cs) \<Longrightarrow>
     emergency_scan net made cs = (Inr None, made @ permitted_requests cs)"
proof (induction cs arbitrary: made)
  case Nil
  then show ?case by (simp add: permitted_requests_def)
next
  case (Cons c cs)
  show ?case
  proof (cases "create_instant_invite c")
    case True
    with Cons.prems have f: "is_http_failure (net made (emergency_request c))"
      and rest: "all_fail net (made @ [emergency_request c]) (permitted_requests cs)"
      by (simp_all add: permitted_requests_def)
    from f obtain st ra where "net made (emergency_request c) = HTTPException st ra"
      by (cases "net made (emergency_request c)") simp_all
    with True Cons.IH [OF rest] show ?thesis
      by (simp add: permitted_requests_def)
  next
    case False
    with Cons.prems have "all_fail net made (permitted_requests cs)"
      by (simp add: permitted_requests_def)
    with False Cons.IH show ?thesis
      by (simp add: permitted_requests_def)
  qed
qed

lemma emergency_scan_first:
  "all_fail net made (permitted_requests pre) \<Longrightarrow> create_instant_invite c \<Longrightarrow>
   net (made @ permitted_requests pre) (emergency_request c) = Invite link \<Longrightarrow>
     emergency_scan net made (pre @ c # post)
       = (Inr (Some link), made @ permitted_requests pre @ [emergency_request c])"
proof (induction pre arbitrary: made)
  case Nil
  then show ?case by (simp add: permitted_requests_def)
next
  case (Cons p pre)
  show ?case
  proof (cases "create_instant_invite p")
    case True
    with Cons.prems have f: "is_http_failure (net made (emergency_request p))"
      and rest: "all_fail net (made @ [emergency_request p]) (permitted_requests pre)"
      and hit: "net ((made @ [emergency_request p]) @ permitted_requests pre) (emergency_request c)
                  = Invite link"
      by (simp_all add: permitted_requests_def)
    from f obtain st ra where "net made (emergency_request p) = HTTPException st ra"
      by (cases "net made (emergency_request p)") simp_all
    with True Cons.IH [OF rest Cons.prems(2) hit] show ?thesis
      by (simp add: permitted_requests_def)
  next
    case False
    with Cons.prems have "all_fail net made (permitted_requests pre)"
      and "net (made @ permitted_requests pre) (emergency_request c) = Invite link"
      by (simp_all add: permitted_requests_def)
    with False Cons.IH [OF _ Cons.prems(2)] show ?thesis
      by (simp add: permitted_requests_def)
  qed
qed

lemma permitted_requests_fixed:
  "r \<in> set (permitted_requests cs) \<Longrightarrow>
     max_age r = PInt 3600 \<and> max_uses r = PInt 1 \<and> temporary r = PBool False
     \<and> (\<exists>c \<in> set cs. create_instant_invite c \<and> target r = channel_id c)"
  by (auto simp add: permitted_requests_def emergency_request_def)


lemma try_fallback_skipped:
  "configured_tier_skipped g cfg \<Longrightarrow>
     try_fallback_channel net now s g cfg made
       = (fst (emergency_scan net made (text_channels g)), s,
          snd (emergency_scan net made (text_channels g)))"
  by (cases "truthy (dict_get cfg ''fallback_channel'' PNone)";
      cases "get_channel g (dict_get cfg ''fallback_channel'' PNone)")
     (simp_all add: try_fallback_channel_def configured_tier_skipped_def Let_def)

lemma try_fallback_failed:
  "truthy (dict_get cfg ''fallback_channel'' PNone) \<Longrightarrow>
   get_channel g (dict_get cfg ''fallback_channel'' PNone) = Some c \<Longrightarrow>
   create_instant_invite c \<Longrightarrow>
   fmlookup cfg ''invite_duration'' = Some d \<Longrightarrow>
   fmlookup cfg ''invite_uses'' = Some u \<Longrightarrow>
   is_http_failure (net made (configured_request c d u cfg)) \<Longrightarrow>
     try_fallback_channel net now s g cfg made
       = (fst (emergency_scan net (made @ [configured_request c d u cfg]) (text_channels g)), s,
          snd (emergency_scan net (made @ [configured_request c d u cfg]) (text_channels g)))"
  by (cases "net made (configured_request c d u cfg)")
     (simp_all add: try_fallback_channel_def Let_def)

lemma create_thread_invite_forbidden:
  "me_create_instant_invite (thread_guild t) \<Longrightarrow>
   \<not> fst (is_rate_limited (clk 0) s (guild_ident (thread_guild t))) \<Longrightarrow>
   fmlookup (effective_config s t cfg0) ''invite_duration'' = Some d \<Longrightarrow>
   fmlookup (effective_config s t cfg0) ''invite_uses'' = Some u \<Longrightarrow>
   net [] (primary_request t d u (effective_config s t cfg0)) = HTTPException 403 retry \<Longrightarrow>
     create_thread_invite net clk s t cfg0
       = try_fallback_channel net (clk 1)
           (snd (is_rate_limited (clk 0) s (guild_ident (thread_guild t))))
           (thread_guild t) (effective_config s t cfg0)
           [primary_request t d u (effective_config s t cfg0)]"
  by (simp add: create_thread_invite_def validate_permissions_def Let_def)

subsection \<open>The rate-limit gate and throttling\<close>

lemma is_rate_limited_cache:
  "invite_cache (snd (is_rate_limited now s g)) = invite_cache s"
  by (simp add: is_rate_limited_def split: option.splits)

lemma create_thread_invite_limited:
  "me_create_instant_invite (thread_guild t) \<Longrightarrow>
   fst (is_rate_limited (clk 0) s (guild_ident (thread_guild t))) \<Longrightarrow>
     snd (snd (create_thread_invite net clk s t cfg0)) = []
     \<and> fst (create_thread_invite net clk s t cfg0)
         = (case invite_cache s (guild_ident (thread_guild t)) of
              None \<Rightarrow> Inr None
            | Some c \<Rightarrow> if clk 1 < expires_at c \<and> url c \<noteq> [] then Inr (Some (url c))
                        else Inr None)"
  by (simp add: create_thread_invite_def validate_permissions_def Let_def
        get_cached_invite_def is_rate_limited_cache split: option.splits)

lemma create_thread_invite_throttled:
  "me_create_instant_invite (thread_guild t) \<Longrightarrow>
   \<not> fst (is_rate_limited (clk 0) s (guild_ident (thread_guild t))) \<Longrightarrow>
   fmlookup (effective_config s t cfg0) ''invite_duration'' = Some d \<Longrightarrow>
   fmlookup (effective_config s t cfg0) ''invite_uses'' = Some u \<Longrightarrow>
   net [] (primary_request t d u (effective_config s t cfg0)) = HTTPException 429 retry \<Longrightarrow>
     snd (snd (create_thread_invite net clk s t cfg0))
       = [primary_request t d u (effective_config s t cfg0)]
     \<and> rate_limits (fst (snd (create_thread_invite net clk s t cfg0))) (guild_ident (thread_guild t))
         = Some (clk 1 + (case retry of None \<Rightarrow> 60 | Some r \<Rightarrow> r))
     \<and> fst (create_thread_invite net clk s t cfg0)
         = (case invite_cache s (guild_ident (thread_guild t)) of
              None \<Rightarrow> Inr None
            | Some c \<Rightarrow> if clk 2 < expires_at c then Inr (Some (url c)) else Inr None)"
  by (simp add: create_thread_invite_def validate_permissions_def Let_def
        get_cached_invite_def set_rate_limit_def is_rate_limited_cache split: option.splits)

lemma example_config [simp]:
  "effective_config empty_state (example_thread p) None = defaults"
  by (simp add: effective_config_def get_config_def empty_state_def)

lemma defaults_lookup [simp]:
  "fmlookup defaults ''invite_duration'' = Some (PInt 86400)"
  "fmlookup defaults ''invite_uses'' = Some (PInt 1)"
  "dict_get defaults ''fallback_channel'' PNone = PNone"
  "dict_get defaults ''temporary'' (PBool False) = PBool False"
  by (simp_all add: defaults_def dict_get_def fmlookup_of_list)

text \<open>
  Claim C1. With the permission held: when the guild is rate-limited at the first clock
  reading, \<open>create_thread_invite\<close> makes no request to the provider and returns the
  cached URL if the guild has an entry whose expiry is after the clock (and whose URL is
  not the empty string, which Python takes as false), and no invite otherwise. When the
  guild is not limited and the primary request fails with status 429, the cutoff of the
  guild becomes the clock plus the \<^verbatim>\<open>retry_after\<close> of the exception, 60 if it has none;
  the primary request is the only request made; the value returned is the cached URL if
  it is still valid, and no invite otherwise.
\<close>

theorem rate_limited_serves_cache:
  assumes "me_create_instant_invite (thread_guild t)"
  shows
    "(fst (is_rate_limited (clk 0) s (guild_ident (thread_guild t)))
      \<longrightarrow> snd (snd (create_thread_invite net clk s t cfg0)) = []
        \<and> fst (create_thread_invite net clk s t cfg0)
            = (case invite_cache s (guild_ident (thread_guild t)) of
                 None \<Rightarrow> Inr None
               | Some c \<Rightarrow> if clk 1 < expires_at c \<and> url c \<noteq> [] then Inr (Some (url c))
                           else Inr None))
     \<and> (\<not> fst (is_rate_limited (clk 0) s (guild_ident (thread_guild t)))
        \<and> fmlookup (effective_config s t cfg0) ''invite_duration'' = Some d
        \<and> fmlookup (effective_config s t cfg0) ''invite_uses'' = Some u
        \<and> net [] (primary_request t d u (effective_config s t cfg0)) = HTTPException 429 retry
      \<longrightarrow> snd (snd (create_thread_invite net clk s t cfg0))
            = [primary_request t d u (effective_config s t cfg0)]
        \<and> rate_limits (fst (snd (create_thread_invite net clk s t cfg0)))
              (guild_ident (thread_guild t))
            = Some (clk 1 + (case retry of None \<Rightarrow> 60 | Some r \<Rightarrow> r))
        \<and> fst (create_thread_invite net clk s t cfg0)
            = (case invite_cache s (guild_ident (thread_guild t)) of
                 None \<Rightarrow> Inr None
               | Some c \<Rightarrow> if clk 2 < expires_at c then Inr (Some (url c)) else Inr None))"
  using assms create_thread_invite_limited [of t clk s net cfg0]
    create_thread_invite_throttled [of t clk s cfg0 d u net retry]
  by blast

theorem rate_limited_serves_cache_witness:
  "me_create_instant_invite (thread_guild (example_thread True))
   \<and> fst (is_rate_limited (example_clock 0) limited_state 7)
   \<and> create_thread_invite throttling_provider example_clock limited_state (example_thread True) None
       = (Inr (Some ''https://discord.gg/a''), limited_state, [])
   \<and> \<not> fst (is_rate_limited (example_clock 0) empty_state 7)
   \<and> throttling_provider [] (primary_request (example_thread True) (PInt 86400) (PInt 1) defaults)
       = HTTPException 429 (Some 30)
   \<and> fst (create_thread_invite throttling_provider example_clock empty_state
            (example_thread True) None) = Inr None
   \<and> rate_limits (fst (snd (create_thread_invite throttling_provider example_clock empty_state
            (example_thread True) None))) 7 = Some 1031
   \<and> snd (snd (create_thread_invite throttling_provider example_clock empty_state
            (example_thread True) None))
       = [primary_request (example_thread True) (PInt 86400) (PInt 1) defaults]"
proof -
  have perm: "me_create_instant_invite (thread_guild (example_thread True))"
    by (simp add: example_thread_def example_guild_def)
  have gid: "guild_ident (thread_guild (example_thread True)) = 7"
    by (simp add: example_thread_def example_guild_def)
  have lim: "fst (is_rate_limited (example_clock 0) limited_state 7)"
    by (simp add: is_rate_limited_def limited_state_def example_clock_def)
  have free: "\<not> fst (is_rate_limited (example_clock 0) empty_state 7)"
    by (simp add: is_rate_limited_def empty_state_def example_clock_def)
  have thr: "throttling_provider [] (primary_request (example_thread True) (PInt 86400) (PInt 1) defaults)
       = HTTPException 429 (Some 30)"
    by (simp add: throttling_provider_def)
  have st: "snd (create_thread_invite throttling_provider example_clock limited_state
                  (example_thread True) None) = (limited_state, [])"
    using perm lim
    by (simp add: create_thread_invite_def validate_permissions_def gid Let_def
          get_cached_invite_def is_rate_limited_def limited_state_def example_clock_def)
  have a: "fst (create_thread_invite throttling_provider example_clock limited_state
                  (example_thread True) None) = Inr (Some ''https://discord.gg/a'')"
    using rate_limited_serves_cache [OF perm, of example_clock limited_state throttling_provider None]
      lim
    by (simp add: gid limited_state_def example_clock_def)
  have b: "snd (snd (create_thread_invite throttling_provider example_clock empty_state
            (example_thread True) None))
       = [primary_request (example_thread True) (PInt 86400) (PInt 1) defaults]
     \<and> rate_limits (fst (snd (create_thread_invite throttling_provider example_clock empty_state
            (example_thread True) None))) 7 = Some 1031
     \<and> fst (create_thread_invite throttling_provider example_clock empty_state
            (example_thread True) None) = Inr None"
    using rate_limited_serves_cache [OF perm, of example_clock empty_state throttling_provider None
        "PInt 86400" "PInt 1" "Some 30"] free thr
    by (simp add: gid example_clock_def) (simp add: empty_state_def)
  from perm lim free thr st a b show ?thesis
    by (metis prod.collapse)
qed

subsection \<open>Which successes are cached\<close>

lemma create_thread_invite_primary:
  "me_create_instant_invite (thread_guild t) \<Longrightarrow>
   \<not> fst (is_rate_limited (clk 0) s (guild_ident (thread_guild t))) \<Longrightarrow>
   fmlookup (effective_config s t cfg0) ''invite_duration'' = Some d \<Longrightarrow>
   fmlookup (effective_config s t cfg0) ''invite_uses'' = Some u \<Longrightarrow>
   net [] (primary_request t d u (effective_config s t cfg0)) = Invite link \<Longrightarrow>
   py_num d = Some x \<Longrightarrow>
     fst (create_thread_invite net clk s t cfg0) = Inr (Some link)
     \<and> invite_cache (fst (snd (create_thread_invite net clk s t cfg0))) (guild_ident (thread_guild t))
         = Some \<lparr>url = link, expires_at = clk 1 + min x 300 - 30\<rparr>"
  by (simp add: create_thread_invite_def validate_permissions_def Let_def cache_invite_def)

lemma try_fallback_configured:
  "truthy (dict_get cfg ''fallback_channel'' PNone) \<Longrightarrow>
   get_channel g (dict_get cfg ''fallback_channel'' PNone) = Some c \<Longrightarrow>
   create_instant_invite c \<Longrightarrow>
   fmlookup cfg ''invite_duration'' = Some d \<Longrightarrow>
   fmlookup cfg ''invite_uses'' = Some u \<Longrightarrow>
   net made (configured_request c d u cfg) = Invite link \<Longrightarrow>
   py_num d = Some x \<Longrightarrow>
     fst (try_fallback_channel net now s g cfg made) = Inr (Some link)
     \<and> invite_cache (fst (snd (try_fallback_channel net now s g cfg made))) (guild_ident g)
         = Some \<lparr>url = link, expires_at = now + min x 300 - 30\<rparr>"
  by (simp add: try_fallback_channel_def Let_def cache_invite_def)

lemma try_fallback_emergency_state:
  "configured_tier_skipped g cfg \<Longrightarrow>
     fst (snd (try_fallback_channel net now s g cfg made)) = s"
  by (simp add: try_fallback_skipped)

text \<open>
  Claim C3. A success of the primary request and a success of the configured fallback
  channel leave the URL in the guild's cache entry (the two lemmas above). A success of
  the emergency loop does not: the loop returns the URL without calling
  \<open>cache_invite\<close>. Here the primary request is refused with status 403, no fallback
  channel is configured and the second text channel grants the emergency invite: the URL
  is returned and the guild has no cache entry afterwards.
\<close>

theorem emergency_invite_not_cached:
  "fst (create_thread_invite emergency_only_provider example_clock empty_state
          (example_thread True) None) = Inr (Some ''https://discord.gg/emergency'')
   \<and> invite_cache (fst (snd (create_thread_invite emergency_only_provider example_clock
          empty_state (example_thread True) None))) 7 = None"
proof -
  have perm: "me_create_instant_invite (thread_guild (example_thread True))"
    by (simp add: example_thread_def example_guild_def)
  have gid: "guild_ident (thread_guild (example_thread True)) = 7"
    by (simp add: example_thread_def example_guild_def)
  have free: "\<not> fst (is_rate_limited (example_clock 0) empty_state
                 (guild_ident (thread_guild (example_thread True))))"
    by (simp add: gid is_rate_limited_def empty_state_def example_clock_def)
  have forbidden: "emergency_only_provider []
      (primary_request (example_thread True) (PInt 86400) (PInt 1)
         (effective_config empty_state (example_thread True) None)) = HTTPException 403 None"
    by (simp add: emergency_only_provider_def primary_request_def)
  have skipped: "configured_tier_skipped (thread_guild (example_thread True)) defaults"
    by (simp add: configured_tier_skipped_def)
  have run: "create_thread_invite emergency_only_provider example_clock empty_state
               (example_thread True) None
      = try_fallback_channel emergency_only_provider (example_clock 1)
          (snd (is_rate_limited (example_clock 0) empty_state
                  (guild_ident (thread_guild (example_thread True)))))
          (thread_guild (example_thread True))
          (effective_config empty_state (example_thread True) None)
          [primary_request (example_thread True) (PInt 86400) (PInt 1)
             (effective_config empty_state (example_thread True) None)]"
    using perm free _ _ forbidden by (rule create_thread_invite_forbidden) simp_all
  have tcs: "text_channels (thread_guild (example_thread True)) = [channel_denied, channel_open]"
    by (simp add: example_thread_def example_guild_def)
  have s1: "invite_cache (snd (is_rate_limited (example_clock 0) empty_state 7)) 7 = None"
    by (simp add: is_rate_limited_cache empty_state_def)
  show ?thesis
    unfolding run using skipped s1
    by (simp add: try_fallback_skipped tcs gid channel_denied_def channel_open_def
          emergency_only_provider_def emergency_request_def)
qed

subsection \<open>The emergency tier after a refusal\<close>

lemma fallback_config:
  "effective_config fallback_state (example_thread p) None
     = defaults ++\<^sub>f fmap_of_list [(''fallback_channel'', PInt 102)]"
  by (simp add: effective_config_def get_config_def fallback_state_def
        example_thread_def example_guild_def)

lemma dict_get_fmupd [simp]:
  "dict_get (fmupd k v m) k' dflt = (if k = k' then v else dict_get m k' dflt)"
  by (simp add: dict_get_def)

lemma fallback_config_lookup:
  "fmlookup (defaults ++\<^sub>f fmap_of_list [(''fallback_channel'', PInt 102)]) ''invite_duration''
     = Some (PInt 86400)"
  "fmlookup (defaults ++\<^sub>f fmap_of_list [(''fallback_channel'', PInt 102)]) ''invite_uses''
     = Some (PInt 1)"
  "dict_get (defaults ++\<^sub>f fmap_of_list [(''fallback_channel'', PInt 102)]) ''fallback_channel'' PNone
     = PInt 102"
  by (simp_all add: dict_get_def)

text \<open>
  Claim C2. Let the primary request fail with status 403, and let the configured tier
  produce no invite: it makes no request, or its request fails with an
  \<^verbatim>\<open>HTTPException\<close>; \<open>made1\<close> are the requests made so far. Then the requests that
  follow are emergency requests (one hour, one use, not temporary) for text channels on
  which the bot may create invites, in the order of \<open>text_channels\<close>. If such a channel
  grants the invite after all permitted channels before it have failed with an
  \<^verbatim>\<open>HTTPException\<close>, its URL is returned and no later channel is asked; if every
  permitted channel fails so, no invite is returned.
\<close>

theorem forbidden_emergency_fallback:
  assumes perm: "me_create_instant_invite (thread_guild t)"
    and free: "\<not> fst (is_rate_limited (clk 0) s (guild_ident (thread_guild t)))"
    and d: "fmlookup (effective_config s t cfg0) ''invite_duration'' = Some d"
    and u: "fmlookup (effective_config s t cfg0) ''invite_uses'' = Some u"
    and forbidden:
      "net [] (primary_request t d u (effective_config s t cfg0)) = HTTPException 403 retry"
    and tier:
      "(configured_tier_skipped (thread_guild t) (effective_config s t cfg0)
          \<and> made1 = [primary_request t d u (effective_config s t cfg0)])
       \<or> (truthy (dict_get (effective_config s t cfg0) ''fallback_channel'' PNone)
          \<and> get_channel (thread_guild t)
                (dict_get (effective_config s t cfg0) ''fallback_channel'' PNone) = Some c
          \<and> create_instant_invite c
          \<and> is_http_failure
                (net [primary_request t d u (effective_config s t cfg0)]
                     (configured_request c d u (effective_config s t cfg0)))
          \<and> made1 = [primary_request t d u (effective_config s t cfg0),
                      configured_request c d u (effective_config s t cfg0)])"
  shows
    "(text_channels (thread_guild t) = pre @ ch # post \<and> create_instant_invite ch
        \<and> all_fail net made1 (permitted_requests pre)
        \<and> net (made1 @ permitted_requests pre) (emergency_request ch) = Invite link
      \<longrightarrow> fst (create_thread_invite net clk s t cfg0) = Inr (Some link)
        \<and> snd (snd (create_thread_invite net clk s t cfg0))
            = made1 @ permitted_requests pre @ [emergency_request ch])
     \<and> (all_fail net made1 (permitted_requests (text_channels (thread_guild t)))
      \<longrightarrow> fst (create_thread_invite net clk s t cfg0) = Inr None
        \<and> snd (snd (create_thread_invite net clk s t cfg0))
            = made1 @ permitted_requests (text_channels (thread_guild t)))
     \<and> (\<forall>r \<in> set (permitted_requests (text_channels (thread_guild t))).
           max_age r = PInt 3600 \<and> max_uses r = PInt 1 \<and> temporary r = PBool False
           \<and> (\<exists>x \<in> set (text_channels (thread_guild t)).
                 create_instant_invite x \<and> target r = channel_id x))"
proof -
  let ?cfg = "effective_config s t cfg0"
  let ?g = "thread_guild t"
  let ?s1 = "snd (is_rate_limited (clk 0) s (guild_ident ?g))"
  have fb: "create_thread_invite net clk s t cfg0
               = try_fallback_channel net (clk 1) ?s1 ?g ?cfg [primary_request t d u ?cfg]"
    using perm free d u forbidden by (rule create_thread_invite_forbidden)
  have run: "create_thread_invite net clk s t cfg0
               = (fst (emergency_scan net made1 (text_channels ?g)), ?s1,
                  snd (emergency_scan net made1 (text_channels ?g)))"
    using tier
  proof
    assume "configured_tier_skipped ?g ?cfg \<and> made1 = [primary_request t d u ?cfg]"
    then show ?thesis
      using fb by (simp add: try_fallback_skipped)
  next
    assume a: "truthy (dict_get ?cfg ''fallback_channel'' PNone)
      \<and> get_channel ?g (dict_get ?cfg ''fallback_channel'' PNone) = Some c
      \<and> create_instant_invite c
      \<and> is_http_failure (net [primary_request t d u ?cfg] (configured_request c d u ?cfg))
      \<and> made1 = [primary_request t d u ?cfg, configured_request c d u ?cfg]"
    then have "try_fallback_channel net (clk 1) ?s1 ?g ?cfg [primary_request t d u ?cfg]
        = (fst (emergency_scan net made1 (text_channels ?g)), ?s1,
           snd (emergency_scan net made1 (text_channels ?g)))"
      using try_fallback_failed [of ?cfg ?g c d u net "[primary_request t d u ?cfg]" "clk 1" ?s1] d u
      by simp
    then show ?thesis
      using fb by simp
  qed
  have first: "fst (create_thread_invite net clk s t cfg0) = Inr (Some link)
        \<and> snd (snd (create_thread_invite net clk s t cfg0))
            = made1 @ permitted_requests pre @ [emergency_request ch]"
    if "text_channels ?g = pre @ ch # post" "create_instant_invite ch"
       "all_fail net made1 (permitted_requests pre)"
       "net (made1 @ permitted_requests pre) (emergency_request ch) = Invite link"
    using that emergency_scan_first [of net made1 pre ch link post] run by simp
  have none: "fst (create_thread_invite net clk s t cfg0) = Inr None
        \<and> snd (snd (create_thread_invite net clk s t cfg0))
            = made1 @ permitted_requests (text_channels ?g)"
    if "all_fail net made1 (permitted_requests (text_channels ?g))"
    using that emergency_scan_none [of net made1 "text_channels ?g"] run by simp
  have fixed: "\<forall>r \<in> set (permitted_requests (text_channels ?g)).
           max_age r = PInt 3600 \<and> max_uses r = PInt 1 \<and> temporary r = PBool False
           \<and> (\<exists>x \<in> set (text_channels ?g). create_instant_invite x \<and> target r = channel_id x)"
    using permitted_requests_fixed by blast
  from first none fixed show ?thesis by blast
qed

theorem forbidden_emergency_fallback_witness:
  "text_channels (thread_guild (example_thread True)) = [channel_denied] @ channel_open # []
   \<and> create_instant_invite channel_open
   \<and> configured_tier_skipped (thread_guild (example_thread True)) defaults
   \<and> fst (create_thread_invite emergency_only_provider example_clock empty_state
            (example_thread True) None) = Inr (Some ''https://discord.gg/emergency'')
   \<and> snd (snd (create_thread_invite emergency_only_provider example_clock empty_state
            (example_thread True) None))
       = [primary_request (example_thread True) (PInt 86400) (PInt 1) defaults,
          emergency_request channel_open]
   \<and> \<not> configured_tier_skipped (thread_guild (example_thread True))
          (defaults ++\<^sub>f fmap_of_list [(''fallback_channel'', PInt 102)])
   \<and> fst (create_thread_invite refusing_provider example_clock fallback_state
            (example_thread True) None) = Inr None
   \<and> snd (snd (create_thread_invite refusing_provider example_clock fallback_state
            (example_thread True) None))
       = [primary_request (example_thread True) (PInt 86400) (PInt 1)
            (defaults ++\<^sub>f fmap_of_list [(''fallback_channel'', PInt 102)]),
          configured_request channel_open (PInt 86400) (PInt 1)
            (defaults ++\<^sub>f fmap_of_list [(''fallback_channel'', PInt 102)]),
          emergency_request channel_open]"
proof -
  let ?t = "example_thread True"
  let ?cfg = "defaults ++\<^sub>f fmap_of_list [(''fallback_channel'', PInt 102)]"
  have perm: "me_create_instant_invite (thread_guild ?t)"
    by (simp add: example_thread_def example_guild_def)
  have gid: "guild_ident (thread_guild ?t) = 7"
    by (simp add: example_thread_def example_guild_def)
  have tcs: "text_channels (thread_guild ?t) = [channel_denied] @ channel_open # []"
    by (simp add: example_thread_def example_guild_def)
  have chan: "create_instant_invite channel_open" "\<not> create_instant_invite channel_denied"
    by (simp_all add: channel_open_def channel_denied_def)
  have getc: "get_channel (thread_guild ?t) (PInt 102) = Some channel_open"
    by (simp add: example_thread_def example_guild_def)
  have pre: "permitted_requests [channel_denied] = []"
    "permitted_requests [channel_denied, channel_open] = [emergency_request channel_open]"
    by (simp_all add: permitted_requests_def chan)
  have em: "why (emergency_request c) = EmergencyFallback" for c
    by (simp add: emergency_request_def)

  have free1: "\<not> fst (is_rate_limited (example_clock 0) empty_state (guild_ident (thread_guild ?t)))"
    by (simp add: gid is_rate_limited_def empty_state_def example_clock_def)
  have d1: "fmlookup (effective_config empty_state ?t None) ''invite_duration'' = Some (PInt 86400)"
    and u1: "fmlookup (effective_config empty_state ?t None) ''invite_uses'' = Some (PInt 1)"
    by simp_all
  have f1: "emergency_only_provider []
      (primary_request ?t (PInt 86400) (PInt 1) (effective_config empty_state ?t None))
        = HTTPException 403 None"
    by (simp add: emergency_only_provider_def primary_request_def)
  have skip1: "configured_tier_skipped (thread_guild ?t) defaults"
    by (simp add: configured_tier_skipped_def)
  have tier1: "(configured_tier_skipped (thread_guild ?t) (effective_config empty_state ?t None)
          \<and> [primary_request ?t (PInt 86400) (PInt 1) defaults]
              = [primary_request ?t (PInt 86400) (PInt 1) (effective_config empty_state ?t None)])
       \<or> (truthy (dict_get (effective_config empty_state ?t None) ''fallback_channel'' PNone)
          \<and> get_channel (thread_guild ?t)
                (dict_get (effective_config empty_state ?t None) ''fallback_channel'' PNone)
               = Some channel_open
          \<and> create_instant_invite channel_open
          \<and> is_http_failure
                (emergency_only_provider
                   [primary_request ?t (PInt 86400) (PInt 1) (effective_config empty_state ?t None)]
                   (configured_request channel_open (PInt 86400) (PInt 1)
                      (effective_config empty_state ?t None)))
          \<and> [primary_request ?t (PInt 86400) (PInt 1) defaults]
              = [primary_request ?t (PInt 86400) (PInt 1) (effective_config empty_state ?t None),
                 configured_request channel_open (PInt 86400) (PInt 1)
                   (effective_config empty_state ?t None)])"
    using skip1 by simp
  have a: "fst (create_thread_invite emergency_only_provider example_clock empty_state ?t None)
             = Inr (Some ''https://discord.gg/emergency'')
     \<and> snd (snd (create_thread_invite emergency_only_provider example_clock empty_state ?t None))
         = [primary_request ?t (PInt 86400) (PInt 1) defaults, emergency_request channel_open]"
    using forbidden_emergency_fallback
        [where t = "example_thread True" and clk = example_clock and s = empty_state
           and ?cfg0.0 = None and net = emergency_only_provider
           and d = "PInt 86400" and u = "PInt 1" and retry = None and c = channel_open
           and ?made1.0 = "[primary_request (example_thread True) (PInt 86400) (PInt 1) defaults]"
           and pre = "[channel_denied]" and ch = channel_open and post = "[]"
           and link = "''https://discord.gg/emergency''",
         OF perm free1 d1 u1 f1 tier1]
    by (simp add: tcs chan pre em emergency_only_provider_def)

  have free2: "\<not> fst (is_rate_limited (example_clock 0) fallback_state (guild_ident (thread_guild ?t)))"
    by (simp add: gid is_rate_limited_def fallback_state_def example_clock_def)
  have d2: "fmlookup (effective_config fallback_state ?t None) ''invite_duration'' = Some (PInt 86400)"
    and u2: "fmlookup (effective_config fallback_state ?t None) ''invite_uses'' = Some (PInt 1)"
    by (simp_all add: fallback_config fallback_config_lookup)
  have f2: "refusing_provider []
      (primary_request ?t (PInt 86400) (PInt 1) (effective_config fallback_state ?t None))
        = HTTPException 403 None"
    by (simp add: refusing_provider_def)
  have skip2: "\<not> configured_tier_skipped (thread_guild ?t) ?cfg"
    by (simp add: configured_tier_skipped_def fallback_config_lookup getc chan)
  have tier2: "(configured_tier_skipped (thread_guild ?t) (effective_config fallback_state ?t None)
          \<and> [primary_request ?t (PInt 86400) (PInt 1) ?cfg,
              configured_request channel_open (PInt 86400) (PInt 1) ?cfg]
              = [primary_request ?t (PInt 86400) (PInt 1) (effective_config fallback_state ?t None)])
       \<or> (truthy (dict_get (effective_config fallback_state ?t None) ''fallback_channel'' PNone)
          \<and> get_channel (thread_guild ?t)
                (dict_get (effective_config fallback_state ?t None) ''fallback_channel'' PNone)
               = Some channel_open
          \<and> create_instant_invite channel_open
          \<and> is_http_failure
                (refusing_provider
                   [primary_request ?t (PInt 86400) (PInt 1) (effective_config fallback_state ?t None)]
                   (configured_request channel_open (PInt 86400) (PInt 1)
                      (effective_config fallback_state ?t None)))
          \<and> [primary_request ?t (PInt 86400) (PInt 1) ?cfg,
              configured_request channel_open (PInt 86400) (PInt 1) ?cfg]
              = [primary_request ?t (PInt 86400) (PInt 1) (effective_config fallback_state ?t None),
                 configured_request channel_open (PInt 86400) (PInt 1)
                   (effective_config fallback_state ?t None)])"
    by (simp add: fallback_config fallback_config_lookup getc chan refusing_provider_def)
  have b: "fst (create_thread_invite refusing_provider example_clock fallback_state ?t None) = Inr None
     \<and> snd (snd (create_thread_invite refusing_provider example_clock fallback_state ?t None))
         = [primary_request ?t (PInt 86400) (PInt 1) ?cfg,
            configured_request channel_open (PInt 86400) (PInt 1) ?cfg,
            emergency_request channel_open]"
    using forbidden_emergency_fallback
        [where t = "example_thread True" and clk = example_clock and s = fallback_state
           and ?cfg0.0 = None and net = refusing_provider
           and d = "PInt 86400" and u = "PInt 1" and retry = None and c = channel_open
           and ?made1.0 = "[primary_request (example_thread True) (PInt 86400) (PInt 1)
                 (defaults ++\<^sub>f fmap_of_list [(''fallback_channel'', PInt 102)]),
               configured_request channel_open (PInt 86400) (PInt 1)
                 (defaults ++\<^sub>f fmap_of_list [(''fallback_channel'', PInt 102)])]",
         OF perm free2 d2 u2 f2 tier2]
    by (simp add: tcs pre refusing_provider_def)
  from tcs chan(1) skip1 a skip2 b show ?thesis by simp
qed

end
